theory Spec2Isabelle
  imports Main
begin

section \<open>git\_attest.fetch\_attestation: the values the program handles\<close>

text \<open>
  The program decodes a JSON response into Python objects and reads them with
  \<^verbatim>\<open>dict.get\<close>, subscripting and the truth test \<^verbatim>\<open>not att\<close>. The model keeps
  the decoded value as a datatype with one constructor per Python type the decoder
  produces: \<^verbatim>\<open>None\<close>, \<^verbatim>\<open>bool\<close>, \<^verbatim>\<open>int\<close>, \<^verbatim>\<open>float\<close>, \<^verbatim>\<open>str\<close>, \<^verbatim>\<open>list\<close>
  and \<^verbatim>\<open>dict\<close>. A \<^verbatim>\<open>dict\<close> is an association list read with \<open>map_of\<close>.

  A float is kept as mantissa and binary exponent (\<open>FFinite m e\<close> stands for
  \<open>m * 2 ^ e\<close>, both signs of zero being \<open>m = 0\<close>), or one of the special values
  the decoder accepts. Only its truth value is ever used.
\<close>

datatype pyfloat = FFinite int int | FInf bool | FNaN

datatype json =
    JNull
  | JBool bool
  | JInt int
  | JFloat pyfloat
  | JStr string
  | JArr "json list"
  | JObj "(string \<times> json) list"

text \<open>
  The exceptions that can leave \<^verbatim>\<open>fetch_attestation\<close> and \<^verbatim>\<open>main\<close>.
  \<open>RequestException\<close> stands for whatever \<^verbatim>\<open>requests.post\<close> itself raises
  (connection failure, timeout); \<open>SystemExit\<close> is what \<^verbatim>\<open>argparse\<close> raises.
\<close>

datatype error =
    RequestException string
  | HTTPError nat
  | JSONDecodeError
  | AttributeError
  | KeyError string
  | TypeError
  | SystemExit int

text \<open>
  The dataclass \<^verbatim>\<open>Attestation\<close>. Python does not enforce the annotations
  \<^verbatim>\<open>str\<close> and \<^verbatim>\<open>str | None\<close>: each field holds whatever object the constructor was
  given, so each field is a \<open>json\<close> value, with \<open>JNull\<close> for \<^verbatim>\<open>None\<close>.
\<close>

record attestation =
  uid :: json
  txid :: json
  schema :: json
  attester :: json
  recipient :: json

subsection \<open>The HTTP library, as the program sees it\<close>

text \<open>
  \<open>post_call\<close> records the arguments of one call of \<^verbatim>\<open>requests.post\<close>: the URL, the
  \<^verbatim>\<open>json=\<close> body, the \<^verbatim>\<open>timeout=\<close> in seconds, and the \<^verbatim>\<open>headers=\<close> and
  \<^verbatim>\<open>auth=\<close> arguments (empty and absent when the caller passes none).
\<close>

record post_call =
  url :: string
  json_body :: json
  timeout :: nat
  headers :: "(string \<times> string) list"
  auth :: "(string \<times> string) option"

text \<open>
  A response object: its status code and what \<^verbatim>\<open>r.json()\<close> yields, \<open>None\<close> when the
  body is not valid JSON (the method raises) and \<open>Some v\<close> for the decoded value.
\<close>

record response =
  status_code :: nat
  json_of :: "json option"

text \<open>
  \<^verbatim>\<open>requests.post\<close> is a parameter of the model: a function from the call to either the
  exception it raises or the response it returns.
\<close>

type_synonym transport = "post_call \<Rightarrow> error + response"

text \<open>
  \<^verbatim>\<open>Response.raise_for_status\<close> of the requests library raises \<^verbatim>\<open>HTTPError\<close> for a
  client error (\<^verbatim>\<open>400 <= status_code < 500\<close>) and for a server error
  (\<^verbatim>\<open>500 <= status_code < 600\<close>), and does nothing for any other status.
\<close>

definition raise_for_status :: "response \<Rightarrow> error option" where
  "raise_for_status r =
     (if 400 \<le> status_code r \<and> status_code r < 500 then Some (HTTPError (status_code r))
      else if 500 \<le> status_code r \<and> status_code r < 600 then Some (HTTPError (status_code r))
      else None)"

subsection \<open>Python object operations\<close>

text \<open>
  The truth value of a decoded object, as \<^verbatim>\<open>not att\<close> tests it: \<^verbatim>\<open>None\<close>,
  \<^verbatim>\<open>False\<close>, zero, the empty string, the empty list and the empty dict are false.
\<close>

fun truthy :: "json \<Rightarrow> bool" where
  "truthy JNull = False"
| "truthy (JBool b) = b"
| "truthy (JInt n) = (n \<noteq> 0)"
| "truthy (JFloat (FFinite m e)) = (m \<noteq> 0)"
| "truthy (JFloat (FInf s)) = True"
| "truthy (JFloat FNaN) = True"
| "truthy (JStr s) = (s \<noteq> [])"
| "truthy (JArr xs) = (xs \<noteq> [])"
| "truthy (JObj kvs) = (kvs \<noteq> [])"

text \<open>
  \<^verbatim>\<open>obj.get(key, default)\<close>: only a dict has the method; every other object raises
  \<^verbatim>\<open>AttributeError\<close>.
\<close>

fun py_get :: "json \<Rightarrow> string \<Rightarrow> json \<Rightarrow> error + json" where
  "py_get (JObj kvs) k d = Inr (case map_of kvs k of None \<Rightarrow> d | Some v \<Rightarrow> v)"
| "py_get _ k d = Inl AttributeError"

text \<open>
  \<^verbatim>\<open>obj[key]\<close> with a string key: a dict raises \<^verbatim>\<open>KeyError\<close> when the key is
  missing; a string, a list, a number, a boolean and \<^verbatim>\<open>None\<close> raise \<^verbatim>\<open>TypeError\<close>.
\<close>

fun py_getitem :: "json \<Rightarrow> string \<Rightarrow> error + json" where
  "py_getitem (JObj kvs) k = (case map_of kvs k of None \<Rightarrow> Inl (KeyError k) | Some v \<Rightarrow> Inr v)"
| "py_getitem _ k = Inl TypeError"

section \<open>The program\<close>

definition EAS_GQL :: string where
  "EAS_GQL = ''https://base-sepolia.easscan.org/graphql''"

text \<open>The text of the GraphQL query: the triple-quoted literal, line by line.\<close>

definition GQL_QUERY :: string where
  "GQL_QUERY =
     [CHR 0x0A] @
     ''        query ($id: String!) {'' @ [CHR 0x0A] @
     ''          attestation(where: { id: $id }) {'' @ [CHR 0x0A] @
     ''            id'' @ [CHR 0x0A] @
     ''            txid'' @ [CHR 0x0A] @
     ''            schemaId'' @ [CHR 0x0A] @
     ''            attester'' @ [CHR 0x0A] @
     ''            recipient'' @ [CHR 0x0A] @
     ''          }'' @ [CHR 0x0A] @
     ''        }'' @ [CHR 0x0A] @
     ''        ''"

text \<open>
  What the process can observe of a run: the calls of \<^verbatim>\<open>requests.post\<close> issued so far
  and what was printed on each stream. \<^verbatim>\<open>print\<close> is modelled as appending the printed
  object, one entry per call; the formatting of the object is not modelled.
\<close>

datatype printed = PStr string | PAttestation attestation

record world =
  sent :: "post_call list"
  stdout :: "printed list"
  stderr :: "printed list"

text \<open>
  \<^verbatim>\<open>fetch_attestation\<close>: the result is the exception raised (\<open>Inl\<close>) or the value
  returned (\<open>Inr\<close>), \<open>None\<close> being Python's \<^verbatim>\<open>None\<close>; the world records the call.
\<close>

definition fetch_attestation ::
  "transport \<Rightarrow> string \<Rightarrow> world \<Rightarrow> (error + attestation option) \<times> world" where
  "fetch_attestation post u w =
     (let query = JObj [(''query'', JStr GQL_QUERY), (''variables'', JObj [(''id'', JStr u)])];
          call = \<lparr>url = EAS_GQL, json_body = query, timeout = 20, headers = [], auth = None\<rparr>;
          w' = w\<lparr>sent := sent w @ [call]\<rparr>
      in (case post call of
            Inl e \<Rightarrow> Inl e
          | Inr r \<Rightarrow>
              (case raise_for_status r of
                 Some e \<Rightarrow> Inl e
               | None \<Rightarrow>
                   (case json_of r of
                      None \<Rightarrow> Inl JSONDecodeError
                    | Some data \<Rightarrow>
                        (case py_get data ''data'' (JObj []) of
                           Inl e \<Rightarrow> Inl e
                         | Inr d \<Rightarrow>
                             (case py_get d ''attestation'' JNull of
                                Inl e \<Rightarrow> Inl e
                              | Inr att \<Rightarrow>
                                  if \<not> truthy att then Inr None
                                  else
                                    (case py_getitem att ''id'' of
                                       Inl e \<Rightarrow> Inl e
                                     | Inr a_id \<Rightarrow>
                                         (case py_get att ''txid'' JNull of
                                            Inl e \<Rightarrow> Inl e
                                          | Inr a_txid \<Rightarrow>
                                              (case py_get att ''schemaId'' JNull of
                                                 Inl e \<Rightarrow> Inl e
                                               | Inr a_schema \<Rightarrow>
                                                   (case py_get att ''attester'' JNull of
                                                      Inl e \<Rightarrow> Inl e
                                                    | Inr a_attester \<Rightarrow>
                                                        (case py_get att ''recipient'' JNull of
                                                           Inl e \<Rightarrow> Inl e
                                                         | Inr a_recipient \<Rightarrow>
                                                             Inr (Some \<lparr>uid = a_id, txid = a_txid,
                                                                        schema = a_schema,
                                                                        attester = a_attester,
                                                                        recipient = a_recipient\<rparr>)))))))))),
          w'))"

text \<open>
  \<^verbatim>\<open>main\<close>. \<^verbatim>\<open>ArgumentParser.parse_args\<close> is a parameter: it yields the value of
  \<^verbatim>\<open>--uid\<close> or raises \<^verbatim>\<open>SystemExit\<close>. A dataclass instance is always true, so
  \<^verbatim>\<open>not att\<close> holds exactly for \<^verbatim>\<open>None\<close>.
\<close>

definition main ::
  "(string list \<Rightarrow> error + string) \<Rightarrow> transport \<Rightarrow> string list \<Rightarrow> world \<Rightarrow> (error + int) \<times> world" where
  "main parse_args post argv w =
     (case parse_args argv of
        Inl e \<Rightarrow> (Inl e, w)
      | Inr args_uid \<Rightarrow>
          (case fetch_attestation post args_uid w of
             (Inl e, w') \<Rightarrow> (Inl e, w')
           | (Inr None, w') \<Rightarrow> (Inr 2, w'\<lparr>stderr := stderr w' @ [PStr ''Not found'']\<rparr>)
           | (Inr (Some att), w') \<Rightarrow> (Inr 0, w'\<lparr>stdout := stdout w' @ [PAttestation att]\<rparr>)))"


section \<open>Notation for the statements and the spec's examples\<close>

text \<open>The one call that \<open>fetch_attestation\<close> makes for the identifier \<open>u\<close>.\<close>

abbreviation request_for :: "string \<Rightarrow> post_call" where
  "request_for u \<equiv>
     \<lparr>url = EAS_GQL,
      json_body = JObj [(''query'', JStr GQL_QUERY), (''variables'', JObj [(''id'', JStr u)])],
      timeout = 20, headers = [], auth = None\<rparr>"

text \<open>A fresh process: nothing sent, nothing printed.\<close>

definition world0 :: world where
  "world0 = \<lparr>sent = [], stdout = [], stderr = []\<rparr>"

text \<open>The three end-to-end examples of the spec, as responses with status 200.\<close>

definition example1_attestation :: "(string \<times> json) list" where
  "example1_attestation =
     [(''id'', JStr ''0xabc''), (''txid'', JStr ''0x111''), (''schemaId'', JStr ''0xschema''),
      (''attester'', JStr ''0xaa''), (''recipient'', JStr ''0xbb'')]"

definition example3_attestation :: "(string \<times> json) list" where
  "example3_attestation =
     [(''id'', JStr ''0xabc''), (''schemaId'', JStr ''0xschema''), (''attester'', JStr ''0xaa'')]"

definition response_with :: "nat \<Rightarrow> json \<Rightarrow> response" where
  "response_with code att =
     \<lparr>status_code = code, json_of = Some (JObj [(''data'', JObj [(''attestation'', att)])])\<rparr>"

definition example1_response :: response where
  "example1_response = response_with 200 (JObj example1_attestation)"

definition example2_response :: response where
  "example2_response = response_with 200 JNull"

definition example3_response :: response where
  "example3_response = response_with 200 (JObj example3_attestation)"

text \<open>
  A stand-in for \<^verbatim>\<open>parse_args\<close> in the examples: it accepts exactly
  \<^verbatim>\<open>--uid VALUE\<close> and exits with status 2 on anything else.
\<close>

definition example_parse_args :: "string list \<Rightarrow> error + string" where
  "example_parse_args argv =
     (case argv of
        [flag, v] \<Rightarrow> if flag = ''--uid'' then Inr v else Inl (SystemExit 2)
      | _ \<Rightarrow> Inl (SystemExit 2))"

section \<open>Properties\<close>

subsection \<open>What each step of \<open>fetch_attestation\<close> yields\<close>

lemma fetch_world: "snd (fetch_attestation post u w) = w\<lparr>sent := sent w @ [request_for u]\<rparr>"
  by (simp add: fetch_attestation_def Let_def)

lemma fetch_streams:
  "stdout (snd (fetch_attestation post u w)) = stdout w"
  "stderr (snd (fetch_attestation post u w)) = stderr w"
  by (simp_all add: fetch_world)


lemma fetch_http_error:
  "post (request_for u) = Inr r \<Longrightarrow> raise_for_status r = Some e \<Longrightarrow>
   fst (fetch_attestation post u w) = Inl e"
  by (simp add: fetch_attestation_def Let_def)


lemma fetch_shape_error:
  "post (request_for u) = Inr r \<Longrightarrow> raise_for_status r = None \<Longrightarrow> json_of r = Some data \<Longrightarrow>
   py_get data ''data'' (JObj []) = Inl e \<Longrightarrow>
   fst (fetch_attestation post u w) = Inl e"
  "post (request_for u) = Inr r \<Longrightarrow> raise_for_status r = None \<Longrightarrow> json_of r = Some data \<Longrightarrow>
   py_get data ''data'' (JObj []) = Inr d \<Longrightarrow> py_get d ''attestation'' JNull = Inl e \<Longrightarrow>
   fst (fetch_attestation post u w) = Inl e"
  by (simp_all add: fetch_attestation_def Let_def)

lemma fetch_decoded:
  "post (request_for u) = Inr r \<Longrightarrow> raise_for_status r = None \<Longrightarrow> json_of r = Some data \<Longrightarrow>
   py_get data ''data'' (JObj []) = Inr d \<Longrightarrow> py_get d ''attestation'' JNull = Inr att \<Longrightarrow>
   fst (fetch_attestation post u w) =
     (if \<not> truthy att then Inr None
      else case att of
        JObj a \<Rightarrow>
          (case map_of a ''id'' of
             None \<Rightarrow> Inl (KeyError ''id'')
           | Some i \<Rightarrow>
               Inr (Some \<lparr>uid = i,
                          txid = (case map_of a ''txid'' of None \<Rightarrow> JNull | Some v \<Rightarrow> v),
                          schema = (case map_of a ''schemaId'' of None \<Rightarrow> JNull | Some v \<Rightarrow> v),
                          attester = (case map_of a ''attester'' of None \<Rightarrow> JNull | Some v \<Rightarrow> v),
                          recipient = (case map_of a ''recipient'' of None \<Rightarrow> JNull | Some v \<Rightarrow> v)\<rparr>))
      | _ \<Rightarrow> Inl TypeError)"
  by (cases att) (simp_all add: fetch_attestation_def Let_def split: option.splits)

lemma status_2xx: "200 \<le> status_code r \<Longrightarrow> status_code r < 300 \<Longrightarrow> raise_for_status r = None"
  by (simp add: raise_for_status_def)

lemma status_4xx_5xx:
  "400 \<le> status_code r \<Longrightarrow> status_code r < 600 \<Longrightarrow>
   raise_for_status r = Some (HTTPError (status_code r))"
  by (simp add: raise_for_status_def)

text \<open>
  A response whose \<^verbatim>\<open>data\<close> member is present but not an object, for instance
  \<^verbatim>\<open>{"data": null}\<close>, or whose top level is not an object, does not have the expected
  shape: the second \<^verbatim>\<open>.get\<close> (or the first) raises \<^verbatim>\<open>AttributeError\<close>.
\<close>

lemma fetch_data_null:
  "fst (fetch_attestation (\<lambda>c. Inr \<lparr>status_code = 200, json_of = Some (JObj [(''data'', JNull)])\<rparr>)
          u w) = Inl AttributeError"
  by (simp add: fetch_attestation_def Let_def raise_for_status_def)

lemma fetch_top_level_array:
  "fst (fetch_attestation (\<lambda>c. Inr \<lparr>status_code = 200, json_of = Some (JArr [])\<rparr>) u w)
     = Inl AttributeError"
  by (simp add: fetch_attestation_def Let_def raise_for_status_def)

subsection \<open>Found: the record is the response's attestation object\<close>

text \<open>
  The empty object \<^verbatim>\<open>{}\<close> is a non-null attestation object, and the response
  \<^verbatim>\<open>{"data":{"attestation":{}}}\<close> with status 200 yields \<^verbatim>\<open>None\<close>, not a record:
  the test \<^verbatim>\<open>not att\<close> is a truth test and the empty dict is false.
\<close>

theorem fetch_empty_attestation_counterexample:
  "json_of (response_with 200 (JObj [])) = Some (JObj [(''data'', JObj [(''attestation'', JObj [])])])
   \<and> JObj [] \<noteq> JNull
   \<and> fst (fetch_attestation (\<lambda>c. Inr (response_with 200 (JObj []))) ''0xabc'' world0) = Inr None"
  by (simp add: fetch_attestation_def Let_def raise_for_status_def response_with_def)

text \<open>
  C1 (amended). For every HTTP response that passes the status check and whose decoded
  JSON is an object with an object \<^verbatim>\<open>data\<close> holding an attestation object that has the
  key \<^verbatim>\<open>id\<close>, \<open>fetch_attestation\<close> returns a record whose five fields are the
  response's fields: \<open>uid\<close> is \<^verbatim>\<open>id\<close>, \<open>txid\<close> is \<^verbatim>\<open>txid\<close>, \<open>schema\<close> is
  \<^verbatim>\<open>schemaId\<close>, \<open>attester\<close> is \<^verbatim>\<open>attester\<close>, \<open>recipient\<close> is \<^verbatim>\<open>recipient\<close>,
  each of the last four being null when the object does not have it.
\<close>

theorem fetch_attestation_fields:
  assumes "post (request_for u) = Inr r"
    and "raise_for_status r = None"
    and "json_of r = Some (JObj j)"
    and "map_of j ''data'' = Some (JObj d)"
    and "map_of d ''attestation'' = Some (JObj a)"
    and "map_of a ''id'' = Some i"
  shows "fst (fetch_attestation post u w) =
           Inr (Some \<lparr>uid = i,
                      txid = (case map_of a ''txid'' of None \<Rightarrow> JNull | Some v \<Rightarrow> v),
                      schema = (case map_of a ''schemaId'' of None \<Rightarrow> JNull | Some v \<Rightarrow> v),
                      attester = (case map_of a ''attester'' of None \<Rightarrow> JNull | Some v \<Rightarrow> v),
                      recipient = (case map_of a ''recipient'' of None \<Rightarrow> JNull | Some v \<Rightarrow> v)\<rparr>)"
proof -
  have nonempty: "a \<noteq> []"
    using assms(6) by auto
  have data: "py_get (JObj j) ''data'' (JObj []) = Inr (JObj d)"
    using assms(4) by simp
  have att: "py_get (JObj d) ''attestation'' JNull = Inr (JObj a)"
    using assms(5) by simp
  show ?thesis
    using fetch_decoded [where post = post and u = u and w = w, OF assms(1) assms(2) assms(3) data att] nonempty assms(6)
    by simp
qed

text \<open>The spec's end-to-end examples 1 and 3.\<close>

theorem fetch_attestation_fields_witness:
  "fst (fetch_attestation (\<lambda>c. Inr example1_response) ''0xabc'' world0) =
     Inr (Some \<lparr>uid = JStr ''0xabc'', txid = JStr ''0x111'', schema = JStr ''0xschema'',
                attester = JStr ''0xaa'', recipient = JStr ''0xbb''\<rparr>)
   \<and> fst (fetch_attestation (\<lambda>c. Inr example3_response) ''0xabc'' world0) =
     Inr (Some \<lparr>uid = JStr ''0xabc'', txid = JNull, schema = JStr ''0xschema'',
                attester = JStr ''0xaa'', recipient = JNull\<rparr>)"
proof -
  have status: "raise_for_status example1_response = None" "raise_for_status example3_response = None"
    by (simp_all add: raise_for_status_def example1_response_def example3_response_def response_with_def)
  have one: "fst (fetch_attestation (\<lambda>c. Inr example1_response) ''0xabc'' world0) =
     Inr (Some \<lparr>uid = JStr ''0xabc'', txid = JStr ''0x111'', schema = JStr ''0xschema'',
                attester = JStr ''0xaa'', recipient = JStr ''0xbb''\<rparr>)"
    using fetch_attestation_fields [of "\<lambda>c. Inr example1_response" "''0xabc''" example1_response
        "[(''data'', JObj [(''attestation'', JObj example1_attestation)])]"
        "[(''attestation'', JObj example1_attestation)]" example1_attestation "JStr ''0xabc''" world0]
      status(1)
    by (simp add: example1_response_def response_with_def example1_attestation_def)
  have three: "fst (fetch_attestation (\<lambda>c. Inr example3_response) ''0xabc'' world0) =
     Inr (Some \<lparr>uid = JStr ''0xabc'', txid = JNull, schema = JStr ''0xschema'',
                attester = JStr ''0xaa'', recipient = JNull\<rparr>)"
    using fetch_attestation_fields [of "\<lambda>c. Inr example3_response" "''0xabc''" example3_response
        "[(''data'', JObj [(''attestation'', JObj example3_attestation)])]"
        "[(''attestation'', JObj example3_attestation)]" example3_attestation "JStr ''0xabc''" world0]
      status(2)
    by (simp add: example3_response_def response_with_def example3_attestation_def)
  from one three show ?thesis by simp
qed

subsection \<open>Not found\<close>



subsection \<open>The command-line entry point\<close>

text \<open>
  C3. For every invocation of \<open>main\<close> in which the parser yields the identifier: when
  the fetcher returns \<^verbatim>\<open>None\<close>, \<open>main\<close> writes \<^verbatim>\<open>Not found\<close> to standard error,
  writes nothing to standard output and returns 2; when the fetcher returns a record,
  \<open>main\<close> prints the record to standard output, writes nothing to standard error
  and returns 0.
\<close>

theorem main_exit_codes:
  assumes "parse_args argv = Inr u"
  shows "(fst (fetch_attestation post u w) = Inr None \<longrightarrow>
            fst (main parse_args post argv w) = Inr 2
            \<and> stderr (snd (main parse_args post argv w)) = stderr w @ [PStr ''Not found'']
            \<and> stdout (snd (main parse_args post argv w)) = stdout w)
       \<and> (\<forall>att. fst (fetch_attestation post u w) = Inr (Some att) \<longrightarrow>
            fst (main parse_args post argv w) = Inr 0
            \<and> stdout (snd (main parse_args post argv w)) = stdout w @ [PAttestation att]
            \<and> stderr (snd (main parse_args post argv w)) = stderr w)"
  using assms fetch_streams [of post u w]
  by (auto simp: main_def split: prod.splits sum.splits option.splits)

text \<open>The spec's example 2 (exit code 2) and example 1 (exit code 0).\<close>

theorem main_exit_codes_witness:
  "fst (main example_parse_args (\<lambda>c. Inr example2_response) [''--uid'', ''0xdeadbeef''] world0) = Inr 2
   \<and> stderr (snd (main example_parse_args (\<lambda>c. Inr example2_response) [''--uid'', ''0xdeadbeef''] world0))
       = [PStr ''Not found'']
   \<and> stdout (snd (main example_parse_args (\<lambda>c. Inr example2_response) [''--uid'', ''0xdeadbeef''] world0))
       = []
   \<and> fst (main example_parse_args (\<lambda>c. Inr example1_response) [''--uid'', ''0xabc''] world0) = Inr 0
   \<and> stdout (snd (main example_parse_args (\<lambda>c. Inr example1_response) [''--uid'', ''0xabc''] world0))
       = [PAttestation \<lparr>uid = JStr ''0xabc'', txid = JStr ''0x111'', schema = JStr ''0xschema'',
                        attester = JStr ''0xaa'', recipient = JStr ''0xbb''\<rparr>]
   \<and> stderr (snd (main example_parse_args (\<lambda>c. Inr example1_response) [''--uid'', ''0xabc''] world0))
       = []"
proof -
  have parse2: "example_parse_args [''--uid'', ''0xdeadbeef''] = Inr ''0xdeadbeef''"
    by (simp add: example_parse_args_def)
  have parse1: "example_parse_args [''--uid'', ''0xabc''] = Inr ''0xabc''"
    by (simp add: example_parse_args_def)
  have none: "fst (fetch_attestation (\<lambda>c. Inr example2_response) ''0xdeadbeef'' world0) = Inr None"
    by (simp add: fetch_attestation_def Let_def raise_for_status_def example2_response_def
        response_with_def)
  have some: "fst (fetch_attestation (\<lambda>c. Inr example1_response) ''0xabc'' world0) =
      Inr (Some \<lparr>uid = JStr ''0xabc'', txid = JStr ''0x111'', schema = JStr ''0xschema'',
                 attester = JStr ''0xaa'', recipient = JStr ''0xbb''\<rparr>)"
    by (simp add: fetch_attestation_def Let_def raise_for_status_def example1_response_def
        response_with_def example1_attestation_def)
  have empty: "stdout world0 = []" "stderr world0 = []"
    by (simp_all add: world0_def)
  show ?thesis
    using main_exit_codes [where parse_args = example_parse_args
          and argv = "[''--uid'', ''0xdeadbeef'']" and post = "\<lambda>c. Inr example2_response"
          and w = world0, OF parse2]
      main_exit_codes [where parse_args = example_parse_args
          and argv = "[''--uid'', ''0xabc'']" and post = "\<lambda>c. Inr example1_response"
          and w = world0, OF parse1]
      none some empty
    by simp
qed

subsection \<open>Fields missing from the attestation object\<close>

text \<open>
  An attestation object with \<^verbatim>\<open>schemaId\<close> and \<^verbatim>\<open>attester\<close> but without \<^verbatim>\<open>id\<close>:
  the subscript \<^verbatim>\<open>att["id"]\<close> raises \<^verbatim>\<open>KeyError\<close> and no record is returned.
\<close>

theorem fetch_missing_id_counterexample:
  "fst (fetch_attestation
          (\<lambda>c. Inr (response_with 200
                  (JObj [(''schemaId'', JStr ''0xschema''), (''attester'', JStr ''0xaa'')])))
          ''0xabc'' world0) = Inl (KeyError ''id'')"
  by (simp add: fetch_attestation_def Let_def raise_for_status_def response_with_def)

text \<open>
  C4 (amended). For every attestation object in a response that passes the status check:
  when the object has the key \<^verbatim>\<open>id\<close>, a record is returned whatever else is missing,
  and \<^verbatim>\<open>schemaId\<close> and \<^verbatim>\<open>attester\<close> are passed through unchecked, an absent one
  becoming null; \<^verbatim>\<open>id\<close> itself is read by subscript, and a non-empty object without it
  raises \<^verbatim>\<open>KeyError\<close>.
\<close>

theorem fetch_required_fields:
  assumes "post (request_for u) = Inr r"
    and "raise_for_status r = None"
    and "json_of r = Some (JObj j)"
    and "map_of j ''data'' = Some (JObj d)"
    and "map_of d ''attestation'' = Some (JObj a)"
  shows "(\<forall>i. map_of a ''id'' = Some i \<longrightarrow>
            (\<exists>rec. fst (fetch_attestation post u w) = Inr (Some rec)
                \<and> uid rec = i
                \<and> schema rec = (case map_of a ''schemaId'' of None \<Rightarrow> JNull | Some v \<Rightarrow> v)
                \<and> attester rec = (case map_of a ''attester'' of None \<Rightarrow> JNull | Some v \<Rightarrow> v)))
       \<and> (a \<noteq> [] \<and> map_of a ''id'' = None \<longrightarrow>
            fst (fetch_attestation post u w) = Inl (KeyError ''id''))"
proof -
  have data: "py_get (JObj j) ''data'' (JObj []) = Inr (JObj d)"
    using assms(4) by simp
  have att: "py_get (JObj d) ''attestation'' JNull = Inr (JObj a)"
    using assms(5) by simp
  have present: "a \<noteq> []" if "map_of a ''id'' = Some i" for i
    using that by auto
  show ?thesis
    using fetch_decoded [where post = post and u = u and w = w, OF assms(1) assms(2) assms(3) data att]
      present
    by auto
qed

text \<open>An object holding only \<^verbatim>\<open>id\<close>, and an object holding only \<^verbatim>\<open>txid\<close>.\<close>

theorem fetch_required_fields_witness:
  "(\<exists>rec. fst (fetch_attestation (\<lambda>c. Inr (response_with 200 (JObj [(''id'', JStr ''0xabc'')])))
               ''0xabc'' world0) = Inr (Some rec)
      \<and> uid rec = JStr ''0xabc'' \<and> schema rec = JNull \<and> attester rec = JNull)
   \<and> fst (fetch_attestation (\<lambda>c. Inr (response_with 200 (JObj [(''txid'', JStr ''0x111'')])))
               ''0xabc'' world0) = Inl (KeyError ''id'')"
proof -
  have ok: "raise_for_status (response_with 200 v) = None" for v
    by (simp add: raise_for_status_def response_with_def)
  have "\<exists>rec. fst (fetch_attestation (\<lambda>c. Inr (response_with 200 (JObj [(''id'', JStr ''0xabc'')])))
               ''0xabc'' world0) = Inr (Some rec)
      \<and> uid rec = JStr ''0xabc'' \<and> schema rec = JNull \<and> attester rec = JNull"
    using fetch_required_fields [of "\<lambda>c. Inr (response_with 200 (JObj [(''id'', JStr ''0xabc'')]))"
        "''0xabc''" "response_with 200 (JObj [(''id'', JStr ''0xabc'')])"
        "[(''data'', JObj [(''attestation'', JObj [(''id'', JStr ''0xabc'')])])]"
        "[(''attestation'', JObj [(''id'', JStr ''0xabc'')])]"
        "[(''id'', JStr ''0xabc'')]" world0] ok
    by (simp add: response_with_def)
  moreover have "fst (fetch_attestation (\<lambda>c. Inr (response_with 200 (JObj [(''txid'', JStr ''0x111'')])))
               ''0xabc'' world0) = Inl (KeyError ''id'')"
    using fetch_required_fields [of "\<lambda>c. Inr (response_with 200 (JObj [(''txid'', JStr ''0x111'')]))"
        "''0xabc''" "response_with 200 (JObj [(''txid'', JStr ''0x111'')])"
        "[(''data'', JObj [(''attestation'', JObj [(''txid'', JStr ''0x111'')])])]"
        "[(''attestation'', JObj [(''txid'', JStr ''0x111'')])]"
        "[(''txid'', JStr ''0x111'')]" world0] ok
    by (simp add: response_with_def)
  ultimately show ?thesis by simp
qed

subsection \<open>HTTP error statuses\<close>

text \<open>
  Status 300 is not a 2xx status, and \<^verbatim>\<open>raise_for_status\<close> lets it pass: the body is
  decoded as for a success, here to the \<^verbatim>\<open>None\<close> return.
\<close>

theorem fetch_status_300_counterexample:
  "\<not> (200 \<le> status_code (response_with 300 JNull) \<and> status_code (response_with 300 JNull) < 300)
   \<and> fst (fetch_attestation (\<lambda>c. Inr (response_with 300 JNull)) ''0xabc'' world0) = Inr None"
  by (simp add: fetch_attestation_def Let_def raise_for_status_def response_with_def)

text \<open>
  C5 (amended). For every HTTP response with a 4xx or 5xx status (from 400 to 599),
  \<open>fetch_attestation\<close> raises \<^verbatim>\<open>HTTPError\<close>, which reaches the caller: it returns
  neither a record nor \<^verbatim>\<open>None\<close>.
\<close>

theorem fetch_http_error_status:
  assumes "post (request_for u) = Inr r"
    and "400 \<le> status_code r" and "status_code r < 600"
  shows "fst (fetch_attestation post u w) = Inl (HTTPError (status_code r))"
  using fetch_http_error [where post = post and u = u and w = w, OF assms(1)]
    status_4xx_5xx [OF assms(2) assms(3)]
  by simp

text \<open>Status 404 and status 503, the latter with a well-formed attestation in the body.\<close>

theorem fetch_http_error_status_witness:
  "fst (fetch_attestation (\<lambda>c. Inr (response_with 404 JNull)) ''0xabc'' world0) = Inl (HTTPError 404)
   \<and> fst (fetch_attestation (\<lambda>c. Inr (response_with 503 (JObj example1_attestation))) ''0xabc'' world0)
       = Inl (HTTPError 503)"
  using fetch_http_error_status [of "\<lambda>c. Inr (response_with 404 JNull)" "''0xabc''"
      "response_with 404 JNull" world0]
    fetch_http_error_status [of "\<lambda>c. Inr (response_with 503 (JObj example1_attestation))" "''0xabc''"
      "response_with 503 (JObj example1_attestation)" world0]
  by (simp add: response_with_def)

subsection \<open>A body that is not JSON\<close>



subsection \<open>The request\<close>


subsection \<open>A present attestation that is false\<close>

text \<open>
  C8. For every successful (2xx) response in which \<^verbatim>\<open>data.attestation\<close> is present,
  not null, but false as a Python object (the empty object, the empty list, the empty
  string, zero, \<^verbatim>\<open>false\<close>), \<open>fetch_attestation\<close> returns \<^verbatim>\<open>None\<close> and builds no
  record.
\<close>

theorem fetch_falsy_attestation:
  assumes "post (request_for u) = Inr r"
    and "200 \<le> status_code r" and "status_code r < 300"
    and "json_of r = Some (JObj j)"
    and "map_of j ''data'' = Some (JObj d)"
    and "map_of d ''attestation'' = Some att"
    and "att \<noteq> JNull"
    and "\<not> truthy att"
  shows "fst (fetch_attestation post u w) = Inr None"
proof -
  have ok: "raise_for_status r = None"
    using assms(2,3) by (rule status_2xx)
  have data: "py_get (JObj j) ''data'' (JObj []) = Inr (JObj d)"
    using assms(5) by simp
  have a: "py_get (JObj d) ''attestation'' JNull = Inr att"
    using assms(6) by simp
  show ?thesis
    using fetch_decoded [where post = post and u = u and w = w, OF assms(1) ok assms(4) data a]
      assms(8)
    by simp
qed

text \<open>The empty object, the number 0 and the empty string.\<close>

theorem fetch_falsy_attestation_witness:
  "fst (fetch_attestation (\<lambda>c. Inr (response_with 200 (JObj []))) ''0xabc'' world0) = Inr None
   \<and> fst (fetch_attestation (\<lambda>c. Inr (response_with 200 (JInt 0))) ''0xabc'' world0) = Inr None
   \<and> fst (fetch_attestation (\<lambda>c. Inr (response_with 200 (JStr ''''))) ''0xabc'' world0) = Inr None"
  using fetch_falsy_attestation [of "\<lambda>c. Inr (response_with 200 (JObj []))" "''0xabc''"
      "response_with 200 (JObj [])" "[(''data'', JObj [(''attestation'', JObj [])])]"
      "[(''attestation'', JObj [])]" "JObj []" world0]
    fetch_falsy_attestation [of "\<lambda>c. Inr (response_with 200 (JInt 0))" "''0xabc''"
      "response_with 200 (JInt 0)" "[(''data'', JObj [(''attestation'', JInt 0)])]"
      "[(''attestation'', JInt 0)]" "JInt 0" world0]
    fetch_falsy_attestation [of "\<lambda>c. Inr (response_with 200 (JStr ''''))" "''0xabc''"
      "response_with 200 (JStr '''')" "[(''data'', JObj [(''attestation'', JStr '''')])]"
      "[(''attestation'', JStr '''')]" "JStr ''''" world0]
  by (simp add: response_with_def)

subsection \<open>Exit codes of a normal return\<close>

text \<open>
  C9. Whenever \<open>main\<close> returns normally, that is with a value and not an exception,
  the value is 0 or 2.
\<close>

theorem main_returns_0_or_2:
  assumes "fst (main parse_args post argv w) = Inr code"
  shows "code = 0 \<or> code = 2"
  using assms
  by (auto simp: main_def split: prod.splits sum.splits option.splits)

theorem main_returns_0_or_2_witness:
  "fst (main example_parse_args (\<lambda>c. Inr example3_response) [''--uid'', ''0xabc''] world0) = Inr 0
   \<and> ((0::int) = 0 \<or> (0::int) = 2)
   \<and> fst (main example_parse_args (\<lambda>c. Inr example2_response) [''--uid'', ''0xabc''] world0) = Inr 2
   \<and> ((2::int) = 0 \<or> (2::int) = 2)"
proof -
  have zero: "fst (main example_parse_args (\<lambda>c. Inr example3_response) [''--uid'', ''0xabc''] world0) = Inr 0"
    by (simp add: main_def example_parse_args_def fetch_attestation_def Let_def raise_for_status_def
        example3_response_def response_with_def example3_attestation_def)
  have two: "fst (main example_parse_args (\<lambda>c. Inr example2_response) [''--uid'', ''0xabc''] world0) = Inr 2"
    by (simp add: main_def example_parse_args_def fetch_attestation_def Let_def raise_for_status_def
        example2_response_def response_with_def)
  show ?thesis
    using main_returns_0_or_2 [OF zero] main_returns_0_or_2 [OF two] zero two
    by simp
qed

subsection \<open>The outcome depends on the response alone\<close>



end
